theory Spec2Isabelle
  imports Main "HOL-Library.Multiset"
begin

section \<open>Data model\<close>

text \<open>
  The dashboard reads patients and their studies as JSON. Every timestamp is an ISO-8601
  string in the source and is only ever used through \<^verbatim>\<open>new Date(s).getTime()\<close>;
  the model keeps that instant, in milliseconds since the epoch, as an \<^typ>\<open>int\<close>.
  An optional timestamp (\<^verbatim>\<open>completedAt?: string\<close>) is tested in the source by its
  truthiness, which an absent field, \<^verbatim>\<open>null\<close> and the empty string all fail; it
  is an \<^typ>\<open>int option\<close>, \<open>None\<close> for all three.

  The status fields are string literals compared with \<^verbatim>\<open>===\<close>; they stay strings.
  The interfaces of \<^verbatim>\<open>page.tsx\<close> and the ones the timeline module imports from
  \<^verbatim>\<open>./types\<close> are merged: \<open>inProgressAt\<close>, \<open>reviewedAt\<close> and \<open>dischargedAt\<close>
  are read by the timeline module only. The fields \<^verbatim>\<open>id\<close>, \<^verbatim>\<open>name\<close>, \<^verbatim>\<open>type\<close>
  and \<^verbatim>\<open>status\<close> occur in several interfaces and carry the interface's name here
  (\<open>study_id\<close>, \<open>patient_name\<close>, \<open>event_type\<close>, ...).
\<close>

record Doctor =
  doctor_id :: string
  doctor_name :: string
  specialty :: string
  available :: bool

record Study =
  study_id :: string
  patientId :: string
  study_name :: string
  study_type :: string
  study_status :: string
  requestedAt :: int
  inProgressAt :: "int option"
  completedAt :: "int option"
  reviewedAt :: "int option"
  waitTime :: int
  hasAlert :: bool

record Patient =
  patient_id :: string
  patient_name :: string
  age :: int
  gender :: string
  insurance :: string
  diagnosis :: string
  severity :: string
  room :: string
  doctorId :: string
  phone :: string
  admissionTime :: int
  status :: string
  studies :: "Study list"
  doctor :: "Doctor option"
  assignedToDoctorAt :: "int option"
  firstStudyRequestedAt :: "int option"
  allStudiesCompletedAt :: "int option"
  dischargedAt :: "int option"

datatype KanbanStage =
  admission | waiting_doctor | in_studies | results_ready | in_progress | discharge

definition all_stages :: "KanbanStage list" where
  "all_stages = [admission, waiting_doctor, in_studies, results_ready, in_progress, discharge]"

section \<open>Stage classifier\<close>

text \<open>\<^verbatim>\<open>getPatientStage\<close>, page.tsx lines 101-137.\<close>

definition getPatientStage :: "Patient \<Rightarrow> KanbanStage" where
  "getPatientStage patient =
    (if status patient = ''discharged'' then discharge
     else
       let hasStudies = (length (studies patient) > 0);
           allStudiesCompleted =
             (hasStudies \<and> list_all (\<lambda>s. study_status s = ''Completado'') (studies patient));
           hasStudiesInProgress =
             (hasStudies \<and> list_ex (\<lambda>s. study_status s = ''Pendiente Resultado'') (studies patient));
           hasStudiesPending =
             (hasStudies \<and> list_ex (\<lambda>s. study_status s = ''Solicitado'') (studies patient))
       in
         if assignedToDoctorAt patient = None then admission
         else if \<not> hasStudies then waiting_doctor
         else if hasStudiesPending \<or> hasStudiesInProgress then in_studies
         else if allStudiesCompleted \<and> allStudiesCompletedAt patient = None then results_ready
         else if allStudiesCompleted \<and> allStudiesCompletedAt patient \<noteq> None then in_progress
         else waiting_doctor)"


text \<open>
  The stage classifier with its seven \<^verbatim>\<open>return\<close> statements labelled in source
  order: the same guards as \<open>getPatientStage\<close>, returning which arm fired.
\<close>

datatype StageArm =
  arm_discharge | arm_admission | arm_no_studies | arm_in_studies
  | arm_results_ready | arm_in_progress | arm_fallback

definition getPatientStage_arm :: "Patient \<Rightarrow> StageArm" where
  "getPatientStage_arm patient =
    (if status patient = ''discharged'' then arm_discharge
     else
       let hasStudies = (length (studies patient) > 0);
           allStudiesCompleted =
             (hasStudies \<and> list_all (\<lambda>s. study_status s = ''Completado'') (studies patient));
           hasStudiesInProgress =
             (hasStudies \<and> list_ex (\<lambda>s. study_status s = ''Pendiente Resultado'') (studies patient));
           hasStudiesPending =
             (hasStudies \<and> list_ex (\<lambda>s. study_status s = ''Solicitado'') (studies patient))
       in
         if assignedToDoctorAt patient = None then arm_admission
         else if \<not> hasStudies then arm_no_studies
         else if hasStudiesPending \<or> hasStudiesInProgress then arm_in_studies
         else if allStudiesCompleted \<and> allStudiesCompletedAt patient = None then arm_results_ready
         else if allStudiesCompleted \<and> allStudiesCompletedAt patient \<noteq> None then arm_in_progress
         else arm_fallback)"

fun arm_stage :: "StageArm \<Rightarrow> KanbanStage" where
  "arm_stage arm_discharge = discharge"
| "arm_stage arm_admission = admission"
| "arm_stage arm_no_studies = waiting_doctor"
| "arm_stage arm_in_studies = in_studies"
| "arm_stage arm_results_ready = results_ready"
| "arm_stage arm_in_progress = in_progress"
| "arm_stage arm_fallback = waiting_doctor"

definition study_status_values :: "string list" where
  "study_status_values = [''Solicitado'', ''Pendiente Resultado'', ''Completado'']"

subsection \<open>Grouping by stage\<close>

text \<open>
  \<^verbatim>\<open>patientsByStage\<close>, page.tsx lines 140-156. The object \<^verbatim>\<open>grouped\<close> is a map from
  stage to list; \<^verbatim>\<open>grouped[stage].push(patient)\<close> throws a TypeError when the key is
  missing, which is the result \<open>None\<close>.
\<close>

type_synonym grouped = "KanbanStage \<rightharpoonup> Patient list"

definition grouped_init :: grouped where
  "grouped_init =
     [admission \<mapsto> [], waiting_doctor \<mapsto> [], in_studies \<mapsto> [],
      results_ready \<mapsto> [], in_progress \<mapsto> [], discharge \<mapsto> []]"

definition push_patient :: "Patient \<Rightarrow> grouped \<Rightarrow> grouped option" where
  "push_patient patient grouped =
     (let stage = getPatientStage patient
      in case grouped stage of
           None \<Rightarrow> None
         | Some ps \<Rightarrow> Some (grouped(stage \<mapsto> ps @ [patient])))"

fun forEach_push :: "Patient list \<Rightarrow> grouped \<Rightarrow> grouped option" where
  "forEach_push [] grouped = Some grouped"
| "forEach_push (patient # rest) grouped =
     (case push_patient patient grouped of
        None \<Rightarrow> None
      | Some grouped' \<Rightarrow> forEach_push rest grouped')"

definition patientsByStage :: "Patient list \<Rightarrow> grouped option" where
  "patientsByStage patients = forEach_push patients grouped_init"

subsection \<open>Time in the current stage\<close>

text \<open>
  \<^verbatim>\<open>getTimeInStage\<close>, page.tsx lines 159-186, with \<^verbatim>\<open>Date.now()\<close> as the
  parameter \<open>now\<close>. \<^verbatim>\<open>Math.max()\<close> of no arguments is \<open>-Infinity\<close>, so the result
  type has the two infinities beside the integers. Differences of instants are integers
  far below \<open>2^53\<close>, where \<^verbatim>\<open>Math.floor(x / 60000)\<close> is the integer floor division.
\<close>

datatype jsnumber = Num int | PosInfinity | NegInfinity

definition Math_max :: "int list \<Rightarrow> jsnumber" where
  "Math_max xs = (case xs of [] \<Rightarrow> NegInfinity | y # ys \<Rightarrow> Num (fold max ys y))"

definition orElse :: "'a option \<Rightarrow> 'a \<Rightarrow> 'a" where
  "orElse x d = (case x of Some v \<Rightarrow> v | None \<Rightarrow> d)"

definition getTimeInStage :: "int \<Rightarrow> Patient \<Rightarrow> jsnumber" where
  "getTimeInStage now patient =
     (let stage = getPatientStage patient
      in case stage of
           admission \<Rightarrow> Num ((now - admissionTime patient) div 60000)
         | waiting_doctor \<Rightarrow>
             Num ((now - orElse (assignedToDoctorAt patient) (admissionTime patient)) div 60000)
         | in_studies \<Rightarrow>
             Num ((now - orElse (firstStudyRequestedAt patient) (admissionTime patient)) div 60000)
         | results_ready \<Rightarrow>
             (let lastCompleted = Math_max (map (\<lambda>s. orElse (completedAt s) 0) (studies patient))
              in case lastCompleted of
                   Num m \<Rightarrow> Num ((now - m) div 60000)
                 | NegInfinity \<Rightarrow> PosInfinity
                 | PosInfinity \<Rightarrow> NegInfinity)
         | in_progress \<Rightarrow>
             Num ((now - orElse (allStudiesCompletedAt patient) (admissionTime patient)) div 60000)
         | discharge \<Rightarrow> Num 0)"

section \<open>Timeline reconstruction\<close>

datatype EventType =
  ev_admission | doctor_assigned | study_requested | study_in_progress
  | study_completed | study_reviewed | all_completed | ev_discharge

record TimelineEvent =
  event_id :: string
  timestamp :: int
  event_type :: EventType
  title :: string
  description :: string
  duration :: int

text \<open>\<^verbatim>\<open>calculateDuration\<close>, lines 666-670.\<close>

definition calculateDuration :: "int \<Rightarrow> int \<Rightarrow> int" where
  "calculateDuration fromTime toTime = (toTime - fromTime) div 60000"

text \<open>
  \<^verbatim>\<open>Array.prototype.sort\<close> with a comparator is a stable sort: an element goes before
  the first element it does not compare greater than. For a consistent comparator the
  stable sorted arrangement is unique, so any stable algorithm computes it.
\<close>

fun sort_insert :: "('a \<Rightarrow> 'a \<Rightarrow> int) \<Rightarrow> 'a \<Rightarrow> 'a list \<Rightarrow> 'a list" where
  "sort_insert cmp x [] = [x]"
| "sort_insert cmp x (y # ys) =
     (if cmp x y \<le> 0 then x # y # ys else y # sort_insert cmp x ys)"

definition array_sort :: "('a \<Rightarrow> 'a \<Rightarrow> int) \<Rightarrow> 'a list \<Rightarrow> 'a list" where
  "array_sort cmp xs = foldr (sort_insert cmp) xs []"

text \<open>Decimal rendering of a length inside a template string.\<close>

fun show_nat :: "nat \<Rightarrow> string" where
  "show_nat n =
     (if n < 10 then [char_of (48 + n)]
      else show_nat (n div 10) @ [char_of (48 + n mod 10)])"

declare show_nat.simps [simp del]

text \<open>The non-ASCII characters of the source's string literals, as their UTF-8 bytes.\<close>

definition e_acute :: string where
  "e_acute = [CHR 0xC3, CHR 0xA9]"

definition o_acute :: string where
  "o_acute = [CHR 0xC3, CHR 0xB3]"

definition warning_sign :: string where
  "warning_sign = [CHR 0xE2, CHR 0x9A, CHR 0xA0, CHR 0xEF, CHR 0xB8, CHR 0x8F]"

text \<open>
  \<^verbatim>\<open>generatePatientTimeline\<close>, lines 481-603. The two mutable locals, the array
  \<^verbatim>\<open>events\<close> and the cursor \<^verbatim>\<open>previousTimestamp\<close>, are the state that each block of
  the function transforms.
\<close>

record timeline_state =
  events :: "TimelineEvent list"
  previousTimestamp :: int

definition emit_admission :: "Patient \<Rightarrow> timeline_state" where
  "emit_admission patient =
     \<lparr>events =
        [\<lparr>event_id = patient_id patient @ ''-admission'',
          timestamp = admissionTime patient,
          event_type = ev_admission,
          title = ''Ingreso a Emergencias'',
          description =
            ''Paciente ingresado con diagn'' @ o_acute @ ''stico: '' @ diagnosis patient,
          duration = 0\<rparr>],
      previousTimestamp = admissionTime patient\<rparr>"

definition emit_doctor_assigned :: "Patient \<Rightarrow> timeline_state \<Rightarrow> timeline_state" where
  "emit_doctor_assigned patient st =
     (case assignedToDoctorAt patient of
        None \<Rightarrow> st
      | Some t \<Rightarrow>
          \<lparr>events = events st @
             [\<lparr>event_id = patient_id patient @ ''-doctor-assigned'',
               timestamp = t,
               event_type = doctor_assigned,
               title = ''Asignado a M'' @ e_acute @ ''dico'',
               description = ''Paciente asignado a m'' @ e_acute @ ''dico tratante'',
               duration = calculateDuration (previousTimestamp st) t\<rparr>],
           previousTimestamp = t\<rparr>)"

definition emit_first_study ::
  "Patient \<Rightarrow> Study list \<Rightarrow> timeline_state \<Rightarrow> timeline_state" where
  "emit_first_study patient studyList st =
     (case firstStudyRequestedAt patient of
        None \<Rightarrow> st
      | Some t \<Rightarrow>
          \<lparr>events = events st @
             [\<lparr>event_id = patient_id patient @ ''-first-study'',
               timestamp = t,
               event_type = study_requested,
               title = ''Estudios Solicitados'',
               description = show_nat (length studyList) @ '' estudio(s) solicitado(s)'',
               duration = calculateDuration (previousTimestamp st) t\<rparr>],
           previousTimestamp = t\<rparr>)"

definition emit_study_in_progress :: "Study \<Rightarrow> timeline_state \<Rightarrow> timeline_state" where
  "emit_study_in_progress study st =
     (case inProgressAt study of
        None \<Rightarrow> st
      | Some t \<Rightarrow>
          \<lparr>events = events st @
             [\<lparr>event_id = study_id study @ ''-in-progress'',
               timestamp = t,
               event_type = study_in_progress,
               title = study_name study @ '' - En Proceso'',
               description = ''Estudio '' @ study_type study @ '' en proceso'',
               duration = calculateDuration (previousTimestamp st) t\<rparr>],
           previousTimestamp = t\<rparr>)"

definition emit_study_completed :: "Study \<Rightarrow> timeline_state \<Rightarrow> timeline_state" where
  "emit_study_completed study st =
     (case completedAt study of
        None \<Rightarrow> st
      | Some t \<Rightarrow>
          \<lparr>events = events st @
             [\<lparr>event_id = study_id study @ ''-completed'',
               timestamp = t,
               event_type = study_completed,
               title = study_name study @ '' - Completado'',
               description =
                 (if hasAlert study then warning_sign @ '' Resultado anormal detectado''
                  else ''Resultado disponible''),
               duration = calculateDuration (previousTimestamp st) t\<rparr>],
           previousTimestamp = t\<rparr>)"

definition emit_study_reviewed :: "Study \<Rightarrow> timeline_state \<Rightarrow> timeline_state" where
  "emit_study_reviewed study st =
     (case reviewedAt study of
        None \<Rightarrow> st
      | Some t \<Rightarrow>
          \<lparr>events = events st @
             [\<lparr>event_id = study_id study @ ''-reviewed'',
               timestamp = t,
               event_type = study_reviewed,
               title = study_name study @ '' - Revisado'',
               description = ''Resultado revisado por m'' @ e_acute @ ''dico'',
               duration = calculateDuration (previousTimestamp st) t\<rparr>],
           previousTimestamp = t\<rparr>)"

text \<open>The body of \<^verbatim>\<open>sortedStudies.forEach\<close>: the three blocks, in order.\<close>

definition emit_study :: "Study \<Rightarrow> timeline_state \<Rightarrow> timeline_state" where
  "emit_study study st =
     emit_study_reviewed study (emit_study_completed study (emit_study_in_progress study st))"

fun forEach_study :: "Study list \<Rightarrow> timeline_state \<Rightarrow> timeline_state" where
  "forEach_study [] st = st"
| "forEach_study (study # rest) st = forEach_study rest (emit_study study st)"

definition emit_all_completed :: "Patient \<Rightarrow> timeline_state \<Rightarrow> timeline_state" where
  "emit_all_completed patient st =
     (case allStudiesCompletedAt patient of
        None \<Rightarrow> st
      | Some t \<Rightarrow>
          \<lparr>events = events st @
             [\<lparr>event_id = patient_id patient @ ''-all-completed'',
               timestamp = t,
               event_type = all_completed,
               title = ''Todos los Estudios Completados'',
               description = ''Paciente listo para evaluaci'' @ o_acute @ ''n final'',
               duration = calculateDuration (previousTimestamp st) t\<rparr>],
           previousTimestamp = t\<rparr>)"

text \<open>The discharge block is the last one and leaves the cursor alone.\<close>

definition emit_discharge :: "Patient \<Rightarrow> timeline_state \<Rightarrow> timeline_state" where
  "emit_discharge patient st =
     (case dischargedAt patient of
        None \<Rightarrow> st
      | Some t \<Rightarrow>
          st\<lparr>events := events st @
             [\<lparr>event_id = patient_id patient @ ''-discharge'',
               timestamp = t,
               event_type = ev_discharge,
               title = ''Alta M'' @ e_acute @ ''dica'',
               description = ''Paciente dado de alta'',
               duration = calculateDuration (previousTimestamp st) t\<rparr>]\<rparr>)"

text \<open>The array \<^verbatim>\<open>events\<close> as it stands at line 600, before the final sort.\<close>

definition emitted_events :: "Patient \<Rightarrow> Study list \<Rightarrow> TimelineEvent list" where
  "emitted_events patient studyList =
     (let st1 = emit_admission patient;
          st2 = emit_doctor_assigned patient st1;
          st3 = emit_first_study patient studyList st2;
          sortedStudies = array_sort (\<lambda>a b. requestedAt a - requestedAt b) studyList;
          st4 = forEach_study sortedStudies st3;
          st5 = emit_all_completed patient st4;
          st6 = emit_discharge patient st5
      in events st6)"

definition generatePatientTimeline :: "Patient \<Rightarrow> Study list \<Rightarrow> TimelineEvent list" where
  "generatePatientTimeline patient studyList =
     array_sort (\<lambda>a b. timestamp a - timestamp b) (emitted_events patient studyList)"

section \<open>Time statistics\<close>

record PatientTimeStats =
  totalTime :: int
  waitingForStudies :: int
  waitingForReview :: int
  studiesInProgress :: int
  averageStudyTime :: int

text \<open>
  \<^verbatim>\<open>calculatePatientTimeStats\<close>, lines 608-661, with \<^verbatim>\<open>new Date()\<close> as the parameter
  \<open>now\<close>. Each \<^verbatim>\<open>forEach\<close> with its accumulator is a left fold.
\<close>

definition calculatePatientTimeStats ::
  "int \<Rightarrow> Patient \<Rightarrow> Study list \<Rightarrow> PatientTimeStats" where
  "calculatePatientTimeStats now patient studyList =
     (let dischargeTime = (case dischargedAt patient of Some d \<Rightarrow> d | None \<Rightarrow> now);
          total = (dischargeTime - admissionTime patient) div 60000;
          waitStudies =
            foldl (\<lambda>acc study.
                     acc + ((case completedAt study of Some c \<Rightarrow> c | None \<Rightarrow> now)
                            - requestedAt study) div 60000)
                  0 studyList;
          waitReview =
            foldl (\<lambda>acc study.
                     case (completedAt study, reviewedAt study) of
                       (Some c, None) \<Rightarrow> acc + (now - c) div 60000
                     | (Some c, Some r) \<Rightarrow> acc + (r - c) div 60000
                     | (None, _) \<Rightarrow> acc)
                  0 studyList;
          inProgress =
            foldl (\<lambda>acc study.
                     case (inProgressAt study, completedAt study) of
                       (Some i, Some c) \<Rightarrow> acc + (c - i) div 60000
                     | _ \<Rightarrow> acc)
                  0 studyList;
          completedStudies = length (filter (\<lambda>s. completedAt s \<noteq> None) studyList);
          average = (if completedStudies > 0 then waitStudies div int completedStudies else 0)
      in \<lparr>totalTime = total,
          waitingForStudies = waitStudies,
          waitingForReview = waitReview,
          studiesInProgress = inProgress,
          averageStudyTime = average\<rparr>)"

section \<open>Reference descriptions\<close>

text \<open>
  The narrative template of the timeline as a list of checkpoints: the kind of event and
  its optional timestamp, with the studies in ascending order of \<open>requestedAt\<close>.
\<close>

definition study_checkpoints :: "Study \<Rightarrow> (EventType \<times> int option) list" where
  "study_checkpoints s =
     [(study_in_progress, inProgressAt s), (study_completed, completedAt s),
      (study_reviewed, reviewedAt s)]"

definition checkpoints :: "Patient \<Rightarrow> Study list \<Rightarrow> (EventType \<times> int option) list" where
  "checkpoints p ss =
     [(doctor_assigned, assignedToDoctorAt p), (study_requested, firstStudyRequestedAt p)]
     @ concat (map study_checkpoints (sort_key requestedAt ss))
     @ [(all_completed, allStudiesCompletedAt p), (ev_discharge, dischargedAt p)]"

fun reached :: "('a \<times> 'b option) list \<Rightarrow> ('a \<times> 'b) list" where
  "reached [] = []"
| "reached ((k, None) # cs) = reached cs"
| "reached ((k, Some t) # cs) = (k, t) # reached cs"

text \<open>
  Timestamps that are monotonic along the lifecycle: for the patient and for each study,
  the timestamps that are present, in lifecycle order, never decrease, and none is later
  than \<open>now\<close>.
\<close>

fun present :: "'a option list \<Rightarrow> 'a list" where
  "present [] = []"
| "present (None # xs) = present xs"
| "present (Some x # xs) = x # present xs"

definition lifecycle :: "Patient \<Rightarrow> Study \<Rightarrow> int option list" where
  "lifecycle p s =
     [Some (admissionTime p), assignedToDoctorAt p, firstStudyRequestedAt p,
      Some (requestedAt s), inProgressAt s, completedAt s, reviewedAt s,
      allStudiesCompletedAt p, dischargedAt p]"

definition patient_lifecycle :: "Patient \<Rightarrow> int option list" where
  "patient_lifecycle p =
     [Some (admissionTime p), assignedToDoctorAt p, firstStudyRequestedAt p,
      allStudiesCompletedAt p, dischargedAt p]"

definition monotonic :: "int \<Rightarrow> Patient \<Rightarrow> Study list \<Rightarrow> bool" where
  "monotonic now p ss \<longleftrightarrow>
     sorted (present (patient_lifecycle p) @ [now])
     \<and> list_all (\<lambda>s. sorted (present (lifecycle p s) @ [now])) ss"

subsection \<open>The emission loop seen from outside\<close>

text \<open>
  What the claims observe of an event, and of the emission state: the kind, timestamp and
  duration of each event pushed so far, and the cursor. One checkpoint of the template
  acts on this view by \<open>step\<close>; \<open>walk\<close> lists what a run over reached checkpoints pushes.
\<close>

definition triple :: "TimelineEvent \<Rightarrow> EventType \<times> int \<times> int" where
  "triple e = (event_type e, timestamp e, duration e)"

definition view :: "timeline_state \<Rightarrow> (EventType \<times> int \<times> int) list \<times> int" where
  "view st = (map triple (events st), previousTimestamp st)"

fun step ::
  "(EventType \<times> int \<times> int) list \<times> int \<Rightarrow> EventType \<times> int option
   \<Rightarrow> (EventType \<times> int \<times> int) list \<times> int" where
  "step (tr, prev) (k, None) = (tr, prev)"
| "step (tr, prev) (k, Some t) = (tr @ [(k, t, (t - prev) div 60000)], t)"

fun walk :: "int \<Rightarrow> (EventType \<times> int) list \<Rightarrow> (EventType \<times> int \<times> int) list" where
  "walk prev [] = []"
| "walk prev ((k, t) # cs) = (k, t, (t - prev) div 60000) # walk t cs"

section \<open>Example data\<close>

text \<open>
  The scenario patient: admitted 2024-01-01T10:00:00Z (1704103200000 ms), doctor assigned
  at 10:10, one study requested at 10:20, in progress at 10:25, completed at 10:40 with
  an alert, reviewed at 10:45, and allStudiesCompletedAt 10:40.
\<close>

definition t0 :: int where
  "t0 = 1704103200000"

definition minutes :: "int \<Rightarrow> int" where
  "minutes n = n * 60000"

definition scenario_study :: Study where
  "scenario_study =
     \<lparr>study_id = ''s1'', patientId = ''p1'', study_name = ''Hemograma'',
      study_type = ''Laboratorio'', study_status = ''Completado'',
      requestedAt = t0 + minutes 20,
      inProgressAt = Some (t0 + minutes 25),
      completedAt = Some (t0 + minutes 40),
      reviewedAt = Some (t0 + minutes 45),
      waitTime = 20, hasAlert = True\<rparr>"

definition scenario_patient :: Patient where
  "scenario_patient =
     \<lparr>patient_id = ''p1'', patient_name = ''Ana'', age = 40, gender = ''F'',
      insurance = ''OSDE'', diagnosis = ''Dolor abdominal'', severity = ''Urgente'',
      room = ''A1'', doctorId = ''d1'', phone = ''555'',
      admissionTime = t0, status = ''active'', studies = [scenario_study],
      doctor = None,
      assignedToDoctorAt = Some (t0 + minutes 10),
      firstStudyRequestedAt = Some (t0 + minutes 20),
      allStudiesCompletedAt = Some (t0 + minutes 40),
      dischargedAt = None\<rparr>"

section \<open>Stage classifier: properties\<close>

text \<open>
  C1. \<open>getPatientStage\<close> is an ordered first-match decision: discharge when the status is
  discharged; otherwise admission when no doctor was assigned; otherwise waiting_doctor
  when there is no study; otherwise in_studies when some study is Solicitado or Pendiente
  Resultado; otherwise results_ready when every study is Completado and
  allStudiesCompletedAt is absent; otherwise in_progress when every study is Completado and
  allStudiesCompletedAt is present; otherwise waiting_doctor. The result is one of the six
  stages for every patient, and a discharged patient is always in stage discharge.
\<close>

theorem getPatientStage_first_match:
  "getPatientStage p =
     (if status p = ''discharged'' then discharge
      else if assignedToDoctorAt p = None then admission
      else if studies p = [] then waiting_doctor
      else if (\<exists>s \<in> set (studies p).
                 study_status s = ''Solicitado'' \<or> study_status s = ''Pendiente Resultado'')
        then in_studies
      else if (\<forall>s \<in> set (studies p). study_status s = ''Completado'')
              \<and> allStudiesCompletedAt p = None then results_ready
      else if (\<forall>s \<in> set (studies p). study_status s = ''Completado'')
              \<and> allStudiesCompletedAt p \<noteq> None then in_progress
      else waiting_doctor)
   \<and> getPatientStage p \<in> set all_stages
   \<and> (status p = ''discharged'' \<longrightarrow> getPatientStage p = discharge)"
proof -
  have six: "getPatientStage p \<in> set all_stages"
    by (cases "getPatientStage p") (simp_all add: all_stages_def)
  have chain: "getPatientStage p =
     (if status p = ''discharged'' then discharge
      else if assignedToDoctorAt p = None then admission
      else if studies p = [] then waiting_doctor
      else if (\<exists>s \<in> set (studies p).
                 study_status s = ''Solicitado'' \<or> study_status s = ''Pendiente Resultado'')
        then in_studies
      else if (\<forall>s \<in> set (studies p). study_status s = ''Completado'')
              \<and> allStudiesCompletedAt p = None then results_ready
      else if (\<forall>s \<in> set (studies p). study_status s = ''Completado'')
              \<and> allStudiesCompletedAt p \<noteq> None then in_progress
      else waiting_doctor)"
    unfolding getPatientStage_def Let_def list_all_iff list_ex_iff by auto
  have dis: "status p = ''discharged'' \<longrightarrow> getPatientStage p = discharge"
    by (simp add: getPatientStage_def)
  from chain six dis show ?thesis by blast
qed

theorem getPatientStage_first_match_witness:
  "getPatientStage (scenario_patient\<lparr>status := ''discharged''\<rparr>) = discharge
   \<and> getPatientStage (scenario_patient\<lparr>status := ''discharged''\<rparr>) \<in> set all_stages"
  using getPatientStage_first_match [of "scenario_patient\<lparr>status := ''discharged''\<rparr>"]
  by (simp add: all_stages_def)

lemma getPatientStage_arm_stage: "getPatientStage p = arm_stage (getPatientStage_arm p)"
  by (simp add: getPatientStage_def getPatientStage_arm_def Let_def)

text \<open>
  C10. When every study status is one of the three values Solicitado, Pendiente Resultado,
  Completado, the final fallback \<^verbatim>\<open>return "waiting_doctor"\<close> is never reached. In
  particular a patient who is not discharged, has a doctor assigned, and has a non-empty
  study list without any Solicitado or Pendiente Resultado study has all studies
  Completado, and the results_ready or the in_progress arm fires.
\<close>

theorem fallback_unreachable:
  assumes enum: "\<forall>s \<in> set (studies p). study_status s \<in> set study_status_values"
  shows "getPatientStage_arm p \<noteq> arm_fallback
    \<and> (status p \<noteq> ''discharged'' \<and> assignedToDoctorAt p \<noteq> None \<and> studies p \<noteq> []
        \<and> (\<forall>s \<in> set (studies p).
              study_status s \<noteq> ''Solicitado'' \<and> study_status s \<noteq> ''Pendiente Resultado'')
       \<longrightarrow> (\<forall>s \<in> set (studies p). study_status s = ''Completado'')
           \<and> (getPatientStage_arm p = arm_results_ready \<or> getPatientStage_arm p = arm_in_progress)
           \<and> (getPatientStage p = results_ready \<or> getPatientStage p = in_progress))"
proof -
  let ?pending = "list_ex (\<lambda>s. study_status s = ''Solicitado'') (studies p)"
  let ?running = "list_ex (\<lambda>s. study_status s = ''Pendiente Resultado'') (studies p)"
  let ?done = "list_all (\<lambda>s. study_status s = ''Completado'') (studies p)"
  have three: "study_status s = ''Solicitado'' \<or> study_status s = ''Pendiente Resultado''
               \<or> study_status s = ''Completado''" if "s \<in> set (studies p)" for s
    using enum that by (simp add: study_status_values_def)
  have completed: "?done" if "\<not> ?pending" "\<not> ?running"
    using that three unfolding list_all_iff list_ex_iff by blast
  have arm: "getPatientStage_arm p \<noteq> arm_fallback"
    using completed by (simp add: getPatientStage_arm_def Let_def)
  have fires: "?done
      \<and> (getPatientStage_arm p = arm_results_ready \<or> getPatientStage_arm p = arm_in_progress)"
    if "status p \<noteq> ''discharged''" "assignedToDoctorAt p \<noteq> None" "studies p \<noteq> []"
       "\<not> ?pending" "\<not> ?running"
    using that completed by (simp add: getPatientStage_arm_def Let_def)
  have stage: "getPatientStage p = results_ready \<or> getPatientStage p = in_progress"
    if "getPatientStage_arm p = arm_results_ready \<or> getPatientStage_arm p = arm_in_progress"
    using that getPatientStage_arm_stage [of p] by auto
  have none: "\<not> ?pending \<and> \<not> ?running"
    if "\<forall>s \<in> set (studies p).
          study_status s \<noteq> ''Solicitado'' \<and> study_status s \<noteq> ''Pendiente Resultado''"
    using that unfolding list_ex_iff by blast
  have all: "\<forall>s \<in> set (studies p). study_status s = ''Completado''" if "?done"
    using that unfolding list_all_iff .
  from arm fires stage none all show ?thesis by blast
qed

theorem fallback_unreachable_witness:
  "getPatientStage_arm scenario_patient = arm_in_progress
   \<and> getPatientStage scenario_patient = in_progress"
  using fallback_unreachable [of scenario_patient]
  by (simp add: scenario_patient_def scenario_study_def study_status_values_def
      getPatientStage_arm_def getPatientStage_def)

text \<open>
  The condition on the statuses is needed: the JSON may carry any string, and a status
  outside the three values reaches the fallback.
\<close>

lemma fallback_reached_outside_enum:
  "getPatientStage_arm
     (scenario_patient\<lparr>studies := [scenario_study\<lparr>study_status := ''Cancelado''\<rparr>]\<rparr>)
   = arm_fallback"
  by (simp add: getPatientStage_arm_def scenario_patient_def scenario_study_def)

section \<open>Time in stage: properties\<close>

lemma fold_max_Max: "fold max ys (y::int) = Max (set (y # ys))"
  using Max.set_eq_fold [of y ys] by simp

text \<open>
  C6. \<open>getTimeInStage\<close> returns a finite number of whole minutes (floor of milliseconds
  over 60000): for admission, now - admissionTime; for waiting_doctor, now -
  (assignedToDoctorAt, else admissionTime); for in_studies, now - (firstStudyRequestedAt,
  else admissionTime); for results_ready, now - the maximum over all studies of
  completedAt, a study without completedAt counting as epoch 0; for in_progress, now -
  (allStudiesCompletedAt, else admissionTime); for discharge, 0.
\<close>

theorem getTimeInStage_by_stage:
  "getTimeInStage now p =
     Num (case getPatientStage p of
            admission \<Rightarrow> (now - admissionTime p) div 60000
          | waiting_doctor \<Rightarrow>
              (now - (case assignedToDoctorAt p of Some t \<Rightarrow> t | None \<Rightarrow> admissionTime p))
                div 60000
          | in_studies \<Rightarrow>
              (now - (case firstStudyRequestedAt p of Some t \<Rightarrow> t | None \<Rightarrow> admissionTime p))
                div 60000
          | results_ready \<Rightarrow>
              (now - Max (set (map (\<lambda>s. case completedAt s of Some t \<Rightarrow> t | None \<Rightarrow> 0)
                                   (studies p)))) div 60000
          | in_progress \<Rightarrow>
              (now - (case allStudiesCompletedAt p of Some t \<Rightarrow> t | None \<Rightarrow> admissionTime p))
                div 60000
          | discharge \<Rightarrow> 0)"
proof (cases "getPatientStage p")
  case results_ready
  then have "studies p \<noteq> []"
    by (auto simp: getPatientStage_def Let_def split: if_splits)
  then obtain s ss where ss: "studies p = s # ss"
    by (cases "studies p") auto
  show ?thesis
    using results_ready
    by (simp add: getTimeInStage_def Math_max_def ss orElse_def fold_max_Max)
qed (simp_all add: getTimeInStage_def orElse_def)

section \<open>Grouping by stage: properties\<close>

lemma grouped_init_all: "grouped_init st = Some []"
  by (cases st) (simp_all add: grouped_init_def)

lemma forEach_push_buckets:
  assumes "\<forall>st. g st = Some (b st)"
  shows "forEach_push ps g =
           Some (\<lambda>st. Some (b st @ filter (\<lambda>p. getPatientStage p = st) ps))"
  using assms
proof (induction ps arbitrary: g b)
  case Nil
  then show ?case by (simp add: fun_eq_iff)
next
  case (Cons a ps)
  let ?b = "\<lambda>st. if st = getPatientStage a then b st @ [a] else b st"
  have step: "push_patient a g = Some (g(getPatientStage a \<mapsto> b (getPatientStage a) @ [a]))"
    using Cons.prems by (simp add: push_patient_def Let_def)
  have "\<forall>st. (g(getPatientStage a \<mapsto> b (getPatientStage a) @ [a])) st = Some (?b st)"
    using Cons.prems by simp
  then have ih: "forEach_push ps (g(getPatientStage a \<mapsto> b (getPatientStage a) @ [a])) =
      Some (\<lambda>st. Some (?b st @ filter (\<lambda>p. getPatientStage p = st) ps))"
    by (rule Cons.IH)
  have eq: "(\<lambda>st. Some (?b st @ filter (\<lambda>p. getPatientStage p = st) ps)) =
      (\<lambda>st. Some (b st @ filter (\<lambda>p. getPatientStage p = st) (a # ps)))"
    by (auto simp: fun_eq_iff)
  have "forEach_push (a # ps) g =
      forEach_push ps (g(getPatientStage a \<mapsto> b (getPatientStage a) @ [a]))"
    by (simp add: step)
  also note ih
  also note eq
  finally show ?case .
qed

lemma patientsByStage_buckets:
  "patientsByStage ps = Some (\<lambda>st. Some (filter (\<lambda>p. getPatientStage p = st) ps))"
  using forEach_push_buckets [of grouped_init "\<lambda>_. []" ps]
  by (simp add: patientsByStage_def grouped_init_all)

lemma mset_stage_buckets:
  "mset (concat (map (\<lambda>st. filter (\<lambda>p. f p = st) ps) all_stages)) = mset ps"
proof (induction ps)
  case Nil
  then show ?case by (simp add: all_stages_def)
next
  case (Cons a ps)
  then show ?case by (cases "f a") (simp_all add: all_stages_def)
qed

lemma set_all_stages: "set all_stages = UNIV"
proof -
  have "st \<in> set all_stages" for st
    by (cases st) (simp_all add: all_stages_def)
  then show ?thesis by blast
qed

text \<open>
  C7. \<open>patientsByStage\<close> is a stable partition of its input by \<open>getPatientStage\<close>: it
  returns a map with all six stage keys, each stage holds exactly the input patients of
  that stage in input order, the six lists together are the input as a multiset, and the
  lists of two different stages share no patient.
\<close>

theorem patientsByStage_partition:
  "\<exists>g. patientsByStage ps = Some g
      \<and> dom g = set all_stages
      \<and> (\<forall>st. g st = Some (filter (\<lambda>p. getPatientStage p = st) ps))
      \<and> mset (concat (map (\<lambda>st. the (g st)) all_stages)) = mset ps
      \<and> (\<forall>s1 s2. s1 \<noteq> s2 \<longrightarrow> set (the (g s1)) \<inter> set (the (g s2)) = {})"
proof -
  let ?g = "\<lambda>st. Some (filter (\<lambda>p. getPatientStage p = st) ps)"
  have "patientsByStage ps = Some ?g"
    by (rule patientsByStage_buckets)
  moreover have "dom ?g = set all_stages"
    by (simp add: set_all_stages dom_def)
  moreover have "mset (concat (map (\<lambda>st. the (?g st)) all_stages)) = mset ps"
    using mset_stage_buckets [of getPatientStage ps] by simp
  moreover have "\<forall>s1 s2. s1 \<noteq> s2 \<longrightarrow> set (the (?g s1)) \<inter> set (the (?g s2)) = {}"
    by auto
  ultimately show ?thesis by blast
qed

theorem patientsByStage_partition_witness:
  "\<exists>g. patientsByStage
          [scenario_patient, scenario_patient\<lparr>status := ''discharged''\<rparr>,
           scenario_patient\<lparr>patient_id := ''p2''\<rparr>] = Some g
      \<and> g in_progress = Some [scenario_patient, scenario_patient\<lparr>patient_id := ''p2''\<rparr>]
      \<and> g discharge = Some [scenario_patient\<lparr>status := ''discharged''\<rparr>]
      \<and> g admission = Some []
      \<and> set (the (g in_progress)) \<inter> set (the (g discharge)) = {}"
proof -
  let ?ps = "[scenario_patient, scenario_patient\<lparr>status := ''discharged''\<rparr>,
              scenario_patient\<lparr>patient_id := ''p2''\<rparr>]"
  have st: "getPatientStage scenario_patient = in_progress"
    "getPatientStage (scenario_patient\<lparr>status := ''discharged''\<rparr>) = discharge"
    "getPatientStage (scenario_patient\<lparr>patient_id := ''p2''\<rparr>) = in_progress"
    by (simp_all add: getPatientStage_def scenario_patient_def scenario_study_def)
  from patientsByStage_partition [of ?ps] obtain g where
    g: "patientsByStage ?ps = Some g"
       "\<forall>st. g st = Some (filter (\<lambda>p. getPatientStage p = st) ?ps)"
       "\<forall>s1 s2. s1 \<noteq> s2 \<longrightarrow> set (the (g s1)) \<inter> set (the (g s2)) = {}"
    by blast
  have "g in_progress = Some [scenario_patient, scenario_patient\<lparr>patient_id := ''p2''\<rparr>]"
    "g discharge = Some [scenario_patient\<lparr>status := ''discharged''\<rparr>]"
    "g admission = Some []"
    using g(2) st by simp_all
  moreover have "set (the (g in_progress)) \<inter> set (the (g discharge)) = {}"
    using g(3) by simp
  ultimately show ?thesis using g(1) by blast
qed

section \<open>Time statistics: properties\<close>

lemma foldl_add_sum_list:
  "foldl (\<lambda>acc x. acc + f x) (a::int) xs = a + sum_list (map f xs)"
  by (induction xs arbitrary: a) simp_all

lemma foldl_waitingForReview:
  "foldl (\<lambda>acc study.
      case (completedAt study, reviewedAt study) of
        (Some c, None) \<Rightarrow> acc + (now - c) div 60000
      | (Some c, Some r) \<Rightarrow> acc + (r - c) div 60000
      | (None, _) \<Rightarrow> acc) (a::int) ss =
   a + (\<Sum>s\<leftarrow>filter (\<lambda>s. completedAt s \<noteq> None) ss.
          ((case reviewedAt s of Some r \<Rightarrow> r | None \<Rightarrow> now) - the (completedAt s)) div 60000)"
  by (induction ss arbitrary: a) (auto split: option.splits)

lemma foldl_studiesInProgress:
  "foldl (\<lambda>acc study.
      case (inProgressAt study, completedAt study) of
        (Some i, Some c) \<Rightarrow> acc + (c - i) div 60000
      | _ \<Rightarrow> acc) (a::int) ss =
   a + (\<Sum>s\<leftarrow>filter (\<lambda>s. inProgressAt s \<noteq> None \<and> completedAt s \<noteq> None) ss.
          (the (completedAt s) - the (inProgressAt s)) div 60000)"
  by (induction ss arbitrary: a) (auto split: option.splits)

lemma totalTime_eq:
  "totalTime (calculatePatientTimeStats now p ss) =
     ((case dischargedAt p of Some d \<Rightarrow> d | None \<Rightarrow> now) - admissionTime p) div 60000"
  by (simp add: calculatePatientTimeStats_def Let_def)

lemma waitingForStudies_eq:
  "waitingForStudies (calculatePatientTimeStats now p ss) =
     (\<Sum>s\<leftarrow>ss. ((case completedAt s of Some c \<Rightarrow> c | None \<Rightarrow> now) - requestedAt s) div 60000)"
  by (simp add: calculatePatientTimeStats_def Let_def foldl_add_sum_list)

lemma waitingForReview_eq:
  "waitingForReview (calculatePatientTimeStats now p ss) =
     (\<Sum>s\<leftarrow>filter (\<lambda>s. completedAt s \<noteq> None) ss.
        ((case reviewedAt s of Some r \<Rightarrow> r | None \<Rightarrow> now) - the (completedAt s)) div 60000)"
  unfolding calculatePatientTimeStats_def Let_def
  by (simp only: PatientTimeStats.select_convs foldl_waitingForReview add_0)

lemma studiesInProgress_eq:
  "studiesInProgress (calculatePatientTimeStats now p ss) =
     (\<Sum>s\<leftarrow>filter (\<lambda>s. inProgressAt s \<noteq> None \<and> completedAt s \<noteq> None) ss.
        (the (completedAt s) - the (inProgressAt s)) div 60000)"
  unfolding calculatePatientTimeStats_def Let_def
  by (simp only: PatientTimeStats.select_convs foldl_studiesInProgress add_0)

lemma averageStudyTime_eq:
  "averageStudyTime (calculatePatientTimeStats now p ss) =
     (if length (filter (\<lambda>s. completedAt s \<noteq> None) ss) = 0 then 0
      else waitingForStudies (calculatePatientTimeStats now p ss)
             div int (length (filter (\<lambda>s. completedAt s \<noteq> None) ss)))"
  by (simp add: calculatePatientTimeStats_def Let_def)

text \<open>
  C4. \<open>calculatePatientTimeStats\<close>, in whole minutes (each difference of milliseconds
  divided by 60000 and floored): totalTime is (dischargedAt, else now) - admissionTime;
  waitingForStudies is the sum over all studies of (completedAt, else now) - requestedAt;
  waitingForReview is the sum over the studies with completedAt of (reviewedAt, else now)
  - completedAt; studiesInProgress is the sum over the studies with both inProgressAt and
  completedAt of completedAt - inProgressAt; averageStudyTime is the floor of
  waitingForStudies over the number of studies with completedAt, or 0 when there is none.
\<close>

theorem calculatePatientTimeStats_sums:
  "totalTime (calculatePatientTimeStats now p ss) =
     ((case dischargedAt p of Some d \<Rightarrow> d | None \<Rightarrow> now) - admissionTime p) div 60000
   \<and> waitingForStudies (calculatePatientTimeStats now p ss) =
     (\<Sum>s\<leftarrow>ss. ((case completedAt s of Some c \<Rightarrow> c | None \<Rightarrow> now) - requestedAt s) div 60000)
   \<and> waitingForReview (calculatePatientTimeStats now p ss) =
     (\<Sum>s\<leftarrow>filter (\<lambda>s. completedAt s \<noteq> None) ss.
        ((case reviewedAt s of Some r \<Rightarrow> r | None \<Rightarrow> now) - the (completedAt s)) div 60000)
   \<and> studiesInProgress (calculatePatientTimeStats now p ss) =
     (\<Sum>s\<leftarrow>filter (\<lambda>s. inProgressAt s \<noteq> None \<and> completedAt s \<noteq> None) ss.
        (the (completedAt s) - the (inProgressAt s)) div 60000)
   \<and> averageStudyTime (calculatePatientTimeStats now p ss) =
     (if length (filter (\<lambda>s. completedAt s \<noteq> None) ss) = 0 then 0
      else (\<Sum>s\<leftarrow>ss. ((case completedAt s of Some c \<Rightarrow> c | None \<Rightarrow> now) - requestedAt s)
                        div 60000)
             div int (length (filter (\<lambda>s. completedAt s \<noteq> None) ss)))"
  using totalTime_eq [of now p ss] waitingForStudies_eq [of now p ss]
    waitingForReview_eq [of now p ss] studiesInProgress_eq [of now p ss]
    averageStudyTime_eq [of now p ss]
  by (simp only:)

lemma sum_list_map_nonneg:
  "(\<And>x. x \<in> set xs \<Longrightarrow> 0 \<le> f x) \<Longrightarrow> 0 \<le> (\<Sum>x\<leftarrow>xs. (f x :: int))"
  by (induction xs) simp_all

lemma present_append: "present (xs @ ys) = present xs @ present ys"
  by (induction xs rule: present.induct) simp_all

lemma set_present: "set (present xs) = {x. Some x \<in> set xs}"
  by (induction xs rule: present.induct) auto

lemma sorted_present_now:
  assumes "sorted (present xs @ [now])" "Some a \<in> set xs"
  shows "a \<le> now"
  using assms by (auto simp: sorted_append set_present)

lemma sorted_present_le:
  assumes "sorted (present (xs @ Some a # ys) @ [now])" "Some b \<in> set ys"
  shows "a \<le> b"
  using assms by (auto simp: sorted_append present_append set_present)

lemma monotonic_study:
  assumes "monotonic now p ss" "s \<in> set ss"
  shows "sorted (present (lifecycle p s) @ [now])"
  using assms by (simp add: monotonic_def list_all_iff)

lemma monotonic_requested_now:
  assumes "monotonic now p ss" "s \<in> set ss"
  shows "requestedAt s \<le> now"
  using sorted_present_now [OF monotonic_study [OF assms], of "requestedAt s"]
  by (simp add: lifecycle_def)

lemma monotonic_completed_now:
  assumes "monotonic now p ss" "s \<in> set ss" "completedAt s = Some c"
  shows "c \<le> now"
  using sorted_present_now [OF monotonic_study [OF assms(1,2)], of c] assms(3)
  by (simp add: lifecycle_def)

lemma monotonic_requested_completed:
  assumes "monotonic now p ss" "s \<in> set ss" "completedAt s = Some c"
  shows "requestedAt s \<le> c"
proof -
  have split: "lifecycle p s =
      [Some (admissionTime p), assignedToDoctorAt p, firstStudyRequestedAt p]
      @ Some (requestedAt s)
      # [inProgressAt s, completedAt s, reviewedAt s, allStudiesCompletedAt p, dischargedAt p]"
    by (simp add: lifecycle_def)
  show ?thesis
    using monotonic_study [OF assms(1,2)] unfolding split
    by (rule sorted_present_le) (simp add: assms(3))
qed

lemma monotonic_completed_reviewed:
  assumes "monotonic now p ss" "s \<in> set ss" "completedAt s = Some c" "reviewedAt s = Some r"
  shows "c \<le> r"
proof -
  have split: "lifecycle p s =
      [Some (admissionTime p), assignedToDoctorAt p, firstStudyRequestedAt p,
       Some (requestedAt s), inProgressAt s]
      @ Some c # [reviewedAt s, allStudiesCompletedAt p, dischargedAt p]"
    by (simp add: lifecycle_def assms(3))
  show ?thesis
    using monotonic_study [OF assms(1,2)] unfolding split
    by (rule sorted_present_le) (simp add: assms(4))
qed

lemma monotonic_inProgress_completed:
  assumes "monotonic now p ss" "s \<in> set ss" "inProgressAt s = Some i" "completedAt s = Some c"
  shows "i \<le> c"
proof -
  have split: "lifecycle p s =
      [Some (admissionTime p), assignedToDoctorAt p, firstStudyRequestedAt p,
       Some (requestedAt s)]
      @ Some i # [completedAt s, reviewedAt s, allStudiesCompletedAt p, dischargedAt p]"
    by (simp add: lifecycle_def assms(3))
  show ?thesis
    using monotonic_study [OF assms(1,2)] unfolding split
    by (rule sorted_present_le) (simp add: assms(4))
qed

lemma monotonic_total:
  assumes "monotonic now p ss"
  shows "admissionTime p \<le> (case dischargedAt p of Some d \<Rightarrow> d | None \<Rightarrow> now)"
proof (cases "dischargedAt p")
  case None
  have "sorted (present (patient_lifecycle p) @ [now])"
    using assms by (simp add: monotonic_def)
  from sorted_present_now [OF this, of "admissionTime p"] None show ?thesis
    by (simp add: patient_lifecycle_def)
next
  case (Some d)
  have split: "patient_lifecycle p =
      [] @ Some (admissionTime p)
      # [assignedToDoctorAt p, firstStudyRequestedAt p, allStudiesCompletedAt p, dischargedAt p]"
    by (simp add: patient_lifecycle_def)
  have "sorted (present (patient_lifecycle p) @ [now])"
    using assms by (simp add: monotonic_def)
  then have "admissionTime p \<le> d"
    unfolding split by (rule sorted_present_le) (simp add: Some)
  then show ?thesis by (simp add: Some)
qed

text \<open>
  C9. When the present timestamps of the patient and of every study never decrease along
  the lifecycle and \<open>now\<close> is not earlier than any of them, totalTime, waitingForStudies,
  waitingForReview and studiesInProgress are all non-negative.
\<close>

theorem stats_nonnegative:
  assumes "monotonic now p ss"
  shows "0 \<le> totalTime (calculatePatientTimeStats now p ss)
       \<and> 0 \<le> waitingForStudies (calculatePatientTimeStats now p ss)
       \<and> 0 \<le> waitingForReview (calculatePatientTimeStats now p ss)
       \<and> 0 \<le> studiesInProgress (calculatePatientTimeStats now p ss)"
proof -
  have total: "0 \<le> totalTime (calculatePatientTimeStats now p ss)"
    using monotonic_total [OF assms]
    by (simp add: totalTime_eq pos_imp_zdiv_nonneg_iff)
  have "0 \<le> ((case completedAt s of Some c \<Rightarrow> c | None \<Rightarrow> now) - requestedAt s) div 60000"
    if "s \<in> set ss" for s
    using monotonic_requested_now [OF assms that] monotonic_requested_completed [OF assms that]
    by (cases "completedAt s") (simp_all add: pos_imp_zdiv_nonneg_iff)
  then have studies: "0 \<le> waitingForStudies (calculatePatientTimeStats now p ss)"
    by (simp add: waitingForStudies_eq sum_list_map_nonneg)
  have "0 \<le> ((case reviewedAt s of Some r \<Rightarrow> r | None \<Rightarrow> now) - the (completedAt s)) div 60000"
    if "s \<in> set ss" "completedAt s \<noteq> None" for s
  proof -
    from that(2) obtain c where c: "completedAt s = Some c" by blast
    show ?thesis
      using monotonic_completed_now [OF assms that(1) c]
        monotonic_completed_reviewed [OF assms that(1) c]
      by (cases "reviewedAt s") (simp_all add: c pos_imp_zdiv_nonneg_iff)
  qed
  then have review: "0 \<le> waitingForReview (calculatePatientTimeStats now p ss)"
    by (auto simp: waitingForReview_eq intro!: sum_list_map_nonneg)
  have "0 \<le> (the (completedAt s) - the (inProgressAt s)) div 60000"
    if "s \<in> set ss" "inProgressAt s \<noteq> None" "completedAt s \<noteq> None" for s
  proof -
    from that obtain i c where ic: "inProgressAt s = Some i" "completedAt s = Some c" by blast
    show ?thesis
      using monotonic_inProgress_completed [OF assms that(1) ic]
      by (simp add: ic pos_imp_zdiv_nonneg_iff)
  qed
  then have progress: "0 \<le> studiesInProgress (calculatePatientTimeStats now p ss)"
    by (auto simp: studiesInProgress_eq intro!: sum_list_map_nonneg)
  from total studies review progress show ?thesis by blast
qed

theorem stats_nonnegative_witness:
  "monotonic (t0 + minutes 60)
     (scenario_patient\<lparr>allStudiesCompletedAt := Some (t0 + minutes 50)\<rparr>) [scenario_study]
   \<and> 0 \<le> totalTime (calculatePatientTimeStats (t0 + minutes 60)
        (scenario_patient\<lparr>allStudiesCompletedAt := Some (t0 + minutes 50)\<rparr>) [scenario_study])
   \<and> 0 \<le> waitingForStudies (calculatePatientTimeStats (t0 + minutes 60)
        (scenario_patient\<lparr>allStudiesCompletedAt := Some (t0 + minutes 50)\<rparr>) [scenario_study])
   \<and> 0 \<le> waitingForReview (calculatePatientTimeStats (t0 + minutes 60)
        (scenario_patient\<lparr>allStudiesCompletedAt := Some (t0 + minutes 50)\<rparr>) [scenario_study])
   \<and> 0 \<le> studiesInProgress (calculatePatientTimeStats (t0 + minutes 60)
        (scenario_patient\<lparr>allStudiesCompletedAt := Some (t0 + minutes 50)\<rparr>) [scenario_study])"
proof -
  have m: "monotonic (t0 + minutes 60)
     (scenario_patient\<lparr>allStudiesCompletedAt := Some (t0 + minutes 50)\<rparr>) [scenario_study]"
    by (simp add: monotonic_def patient_lifecycle_def lifecycle_def scenario_patient_def
        scenario_study_def t0_def minutes_def)
  from stats_nonnegative [OF m] m show ?thesis by blast
qed

section \<open>Timeline: properties\<close>

lemma sort_insert_insort_key:
  "sort_insert (\<lambda>a b. f a - f b) x ys = insort_key f x ys"
  by (induction ys) simp_all

lemma array_sort_sort_key: "array_sort (\<lambda>a b. f a - f b) xs = sort_key f xs"
  by (induction xs) (simp_all add: array_sort_def sort_insert_insort_key)

lemma view_emit_admission:
  "view (emit_admission p) = ([(ev_admission, admissionTime p, 0)], admissionTime p)"
  by (simp add: view_def emit_admission_def triple_def)

lemma view_emit_doctor_assigned:
  "view (emit_doctor_assigned p st) = step (view st) (doctor_assigned, assignedToDoctorAt p)"
  by (cases "assignedToDoctorAt p")
    (simp_all add: view_def emit_doctor_assigned_def triple_def calculateDuration_def)

lemma view_emit_first_study:
  "view (emit_first_study p ss st) = step (view st) (study_requested, firstStudyRequestedAt p)"
  by (cases "firstStudyRequestedAt p")
    (simp_all add: view_def emit_first_study_def triple_def calculateDuration_def)

lemma view_emit_study_in_progress:
  "view (emit_study_in_progress s st) = step (view st) (study_in_progress, inProgressAt s)"
  by (cases "inProgressAt s")
    (simp_all add: view_def emit_study_in_progress_def triple_def calculateDuration_def)

lemma view_emit_study_completed:
  "view (emit_study_completed s st) = step (view st) (study_completed, completedAt s)"
  by (cases "completedAt s")
    (simp_all add: view_def emit_study_completed_def triple_def calculateDuration_def)

lemma view_emit_study_reviewed:
  "view (emit_study_reviewed s st) = step (view st) (study_reviewed, reviewedAt s)"
  by (cases "reviewedAt s")
    (simp_all add: view_def emit_study_reviewed_def triple_def calculateDuration_def)

lemma view_emit_all_completed:
  "view (emit_all_completed p st) = step (view st) (all_completed, allStudiesCompletedAt p)"
  by (cases "allStudiesCompletedAt p")
    (simp_all add: view_def emit_all_completed_def triple_def calculateDuration_def)

lemma view_emit_discharge:
  "map triple (events (emit_discharge p st)) = fst (step (view st) (ev_discharge, dischargedAt p))"
  by (cases "dischargedAt p")
    (simp_all add: view_def emit_discharge_def triple_def calculateDuration_def)

lemma view_emit_study:
  "view (emit_study s st) = foldl step (view st) (study_checkpoints s)"
  by (simp add: emit_study_def study_checkpoints_def view_emit_study_in_progress
      view_emit_study_completed view_emit_study_reviewed)

lemma view_forEach_study:
  "view (forEach_study ss st) = foldl step (view st) (concat (map study_checkpoints ss))"
  by (induction ss arbitrary: st) (simp_all add: view_emit_study)

lemma foldl_step_walk:
  "foldl step (tr, prev) cs =
     (tr @ walk prev (reached cs), last (prev # map snd (reached cs)))"
proof (induction cs arbitrary: tr prev)
  case Nil
  then show ?case by simp
next
  case (Cons c cs)
  obtain k topt where c: "c = (k, topt)" by (cases c)
  show ?case
    by (cases topt) (simp_all add: c Cons.IH)
qed

lemma emitted_events_walk:
  "map triple (emitted_events p ss) =
     (ev_admission, admissionTime p, 0) # walk (admissionTime p) (reached (checkpoints p ss))"
proof -
  let ?mid = "[(doctor_assigned, assignedToDoctorAt p), (study_requested, firstStudyRequestedAt p)]
     @ concat (map study_checkpoints (sort_key requestedAt ss))
     @ [(all_completed, allStudiesCompletedAt p)]"
  have "map triple (emitted_events p ss) =
      fst (step (foldl step (view (emit_admission p)) ?mid) (ev_discharge, dischargedAt p))"
    by (simp add: emitted_events_def Let_def view_emit_discharge view_emit_all_completed
        view_forEach_study view_emit_first_study view_emit_doctor_assigned array_sort_sort_key)
  also have "\<dots> = fst (foldl step (view (emit_admission p)) (checkpoints p ss))"
    by (simp add: checkpoints_def)
  also have "\<dots> = (ev_admission, admissionTime p, 0)
      # walk (admissionTime p) (reached (checkpoints p ss))"
    by (simp add: view_emit_admission foldl_step_walk)
  finally show ?thesis .
qed

lemma walk_kinds: "map (\<lambda>(k, t, d). (k, t)) (walk prev cs) = cs"
  by (induction prev cs rule: walk.induct) simp_all

lemma walk_adjacent:
  assumes "Suc i < length ((ka, ta, da) # walk ta cs)"
  shows "snd (snd (((ka, ta, da) # walk ta cs) ! Suc i)) =
     (fst (snd (((ka, ta, da) # walk ta cs) ! Suc i))
      - fst (snd (((ka, ta, da) # walk ta cs) ! i))) div 60000"
  using assms
proof (induction cs arbitrary: i ka ta da)
  case Nil
  then show ?case by simp
next
  case (Cons c cs)
  obtain k t where c: "c = (k, t)" by (cases c)
  show ?case
  proof (cases i)
    case 0
    then show ?thesis by (simp add: c)
  next
    case (Suc j)
    with Cons.prems have "Suc j < length ((k, t, (t - ta) div 60000) # walk t cs)"
      by (simp add: c)
    from Cons.IH [OF this] show ?thesis
      by (simp add: c Suc)
  qed
qed

lemma emitted_kinds:
  "map (\<lambda>e. (event_type e, timestamp e)) (emitted_events p ss) =
     (ev_admission, admissionTime p) # reached (checkpoints p ss)"
proof -
  have "map (\<lambda>e. (event_type e, timestamp e)) (emitted_events p ss) =
      map (\<lambda>(k, t, d). (k, t)) (map triple (emitted_events p ss))"
    by (simp add: triple_def)
  also have "\<dots> = (ev_admission, admissionTime p) # reached (checkpoints p ss)"
    by (simp only: emitted_events_walk list.map prod.case walk_kinds)
  finally show ?thesis .
qed

lemma emitted_adjacent:
  assumes "Suc i < length (emitted_events p ss)"
  shows "duration (emitted_events p ss ! Suc i) =
     (timestamp (emitted_events p ss ! Suc i) - timestamp (emitted_events p ss ! i)) div 60000"
proof -
  let ?es = "emitted_events p ss"
  let ?tr = "(ev_admission, admissionTime p, 0) # walk (admissionTime p) (reached (checkpoints p ss))"
  have tr: "map triple ?es = ?tr" by (rule emitted_events_walk)
  then have len: "length ?tr = length ?es"
    by (metis length_map)
  have nth: "?tr ! j = triple (?es ! j)" if "j < length ?es" for j
    using that tr by (metis nth_map)
  from assms len have "Suc i < length ?tr" by simp
  from walk_adjacent [OF this] nth [of "Suc i"] nth [of i] assms
  show ?thesis by (simp add: triple_def)
qed

lemma emitted_hd:
  "emitted_events p ss \<noteq> [] \<and> event_type (hd (emitted_events p ss)) = ev_admission
   \<and> timestamp (hd (emitted_events p ss)) = admissionTime p
   \<and> duration (hd (emitted_events p ss)) = 0"
proof -
  have tr: "map triple (emitted_events p ss) =
     (ev_admission, admissionTime p, 0) # walk (admissionTime p) (reached (checkpoints p ss))"
    by (rule emitted_events_walk)
  then have ne: "emitted_events p ss \<noteq> []" by auto
  then have "triple (hd (emitted_events p ss)) = (ev_admission, admissionTime p, 0)"
    using tr by (cases "emitted_events p ss") simp_all
  with ne show ?thesis by (simp add: triple_def)
qed

lemma mset_sort_insert: "mset (sort_insert cmp x ys) = add_mset x (mset ys)"
  by (induction ys) simp_all

lemma mset_array_sort: "mset (array_sort cmp xs) = mset xs"
  by (induction xs) (simp_all add: array_sort_def mset_sort_insert)

text \<open>
  C2. Before the final sort, the events stand in template order: the admission event
  first, with duration 0, then one event for each checkpoint whose timestamp is present
  (doctor assignment, first study request, then for the studies in ascending order of
  requestedAt their in-progress, completed and reviewed checkpoints, then all studies
  completed, then discharge). The duration of every later event is the floor of
  (its timestamp - the timestamp of the event emitted just before it) / 60000, a single
  cursor running across all studies, negative when the timestamps go backwards. The
  returned list is the sort by timestamp of these same events, durations unchanged.
\<close>

theorem emission_order_and_durations:
  "map (\<lambda>e. (event_type e, timestamp e)) (emitted_events p ss) =
     (ev_admission, admissionTime p) # reached (checkpoints p ss)
   \<and> duration (hd (emitted_events p ss)) = 0
   \<and> (\<forall>i. Suc i < length (emitted_events p ss) \<longrightarrow>
         duration (emitted_events p ss ! Suc i) =
           (timestamp (emitted_events p ss ! Suc i) - timestamp (emitted_events p ss ! i))
             div 60000)
   \<and> generatePatientTimeline p ss =
       array_sort (\<lambda>a b. timestamp a - timestamp b) (emitted_events p ss)
   \<and> mset (generatePatientTimeline p ss) = mset (emitted_events p ss)"
  using emitted_kinds [of p ss] emitted_hd [of p ss] emitted_adjacent [of _ p ss]
  by (simp add: generatePatientTimeline_def mset_array_sort)

text \<open>The scenario patient, evaluated.\<close>

lemmas scenario_defs =
  scenario_patient_def scenario_study_def t0_def minutes_def

lemmas emit_defs =
  emitted_events_def array_sort_def
  emit_admission_def emit_doctor_assigned_def emit_first_study_def emit_study_def
  emit_study_in_progress_def emit_study_completed_def emit_study_reviewed_def
  emit_all_completed_def emit_discharge_def calculateDuration_def

lemma scenario_emitted:
  "map triple (emitted_events scenario_patient [scenario_study]) =
     [(ev_admission, t0, 0), (doctor_assigned, t0 + minutes 10, 10),
      (study_requested, t0 + minutes 20, 10), (study_in_progress, t0 + minutes 25, 5),
      (study_completed, t0 + minutes 40, 15), (study_reviewed, t0 + minutes 45, 5),
      (all_completed, t0 + minutes 40, - 5)]"
  by (simp add: emit_defs scenario_defs triple_def)

theorem emission_order_and_durations_witness:
  "event_type (emitted_events scenario_patient [scenario_study] ! 5) = study_reviewed
   \<and> event_type (emitted_events scenario_patient [scenario_study] ! 6) = all_completed
   \<and> duration (emitted_events scenario_patient [scenario_study] ! 6) = - 5"
proof -
  let ?es = "emitted_events scenario_patient [scenario_study]"
  have len: "length ?es = 7"
    using arg_cong [OF scenario_emitted, of length] by simp
  have nth: "triple (?es ! i) = map triple ?es ! i" if "i < 7" for i
    using that len by simp
  have e5: "triple (?es ! 5) = (study_reviewed, t0 + minutes 45, 5)"
    by (simp add: nth scenario_emitted)
  have e6: "triple (?es ! 6) = (all_completed, t0 + minutes 40, - 5)"
    by (simp add: nth scenario_emitted)
  have "Suc 5 < length ?es \<longrightarrow>
      duration (?es ! Suc 5) = (timestamp (?es ! Suc 5) - timestamp (?es ! 5)) div 60000"
    using emission_order_and_durations [of scenario_patient "[scenario_study]"] by blast
  then have "duration (?es ! 6) = (timestamp (?es ! 6) - timestamp (?es ! 5)) div 60000"
    by (simp add: len)
  with e5 e6 show ?thesis
    by (simp add: triple_def minutes_def)
qed

text \<open>
  C3. The timestamps of the returned timeline never decrease, for every patient and every
  study list.
\<close>

theorem timeline_sorted: "sorted (map timestamp (generatePatientTimeline p ss))"
  by (simp add: generatePatientTimeline_def array_sort_sort_key)

lemma array_sort_keeps_least_head:
  assumes "\<forall>y \<in> set xs. f x \<le> f y"
  shows "array_sort (\<lambda>a b. f a - f b) (x # xs) = x # array_sort (\<lambda>a b. f a - f b) xs"
proof -
  have "\<forall>y \<in> set (sort_key f xs). f x \<le> f y"
    using assms by simp
  then have "insort_key f x (sort_key f xs) = x # sort_key f xs"
    by (rule insort_is_Cons)
  then show ?thesis
    by (simp add: array_sort_sort_key)
qed

lemma emitted_timestamps:
  "map timestamp (emitted_events p ss) = admissionTime p # map snd (reached (checkpoints p ss))"
proof -
  have "map timestamp (emitted_events p ss) =
      map snd (map (\<lambda>e. (event_type e, timestamp e)) (emitted_events p ss))"
    by simp
  also have "\<dots> = admissionTime p # map snd (reached (checkpoints p ss))"
    by (simp only: emitted_kinds list.map snd_conv)
  finally show ?thesis .
qed

text \<open>
  C8 (as amended). The admission event, with duration 0, is the first event emitted and
  always belongs to the returned timeline. It is the first element of the returned
  timeline whenever no present timestamp of the patient or of its studies is earlier than
  admissionTime; the final sort is stable, so a tie with admissionTime keeps it first.
\<close>

theorem admission_first_when_earliest:
  "event_type (hd (emitted_events p ss)) = ev_admission
   \<and> timestamp (hd (emitted_events p ss)) = admissionTime p
   \<and> duration (hd (emitted_events p ss)) = 0
   \<and> hd (emitted_events p ss) \<in> set (generatePatientTimeline p ss)
   \<and> ((\<forall>t \<in> set (map snd (reached (checkpoints p ss))). admissionTime p \<le> t)
        \<longrightarrow> hd (generatePatientTimeline p ss) = hd (emitted_events p ss))"
proof -
  let ?es = "emitted_events p ss"
  from emitted_hd [of p ss] obtain e rest where es: "?es = e # rest"
    by (cases ?es) auto
  have contained: "hd ?es \<in> set (generatePatientTimeline p ss)"
  proof -
    have "set (generatePatientTimeline p ss) = set ?es"
      using mset_array_sort [of "\<lambda>a b. timestamp a - timestamp b" ?es]
      by (metis generatePatientTimeline_def set_mset_mset)
    then show ?thesis by (simp add: es)
  qed
  have first: "hd (generatePatientTimeline p ss) = hd ?es"
    if least: "\<forall>t \<in> set (map snd (reached (checkpoints p ss))). admissionTime p \<le> t"
  proof -
    have ts: "timestamp e # map timestamp rest =
        admissionTime p # map snd (reached (checkpoints p ss))"
      using emitted_timestamps [of p ss] by (simp add: es)
    then have "\<forall>y \<in> set rest. timestamp e \<le> timestamp y"
      using least by (metis imageI list.inject list.set_map)
    then have "array_sort (\<lambda>a b. timestamp a - timestamp b) (e # rest) =
        e # array_sort (\<lambda>a b. timestamp a - timestamp b) rest"
      by (rule array_sort_keeps_least_head)
    then show ?thesis
      by (simp add: generatePatientTimeline_def es)
  qed
  from emitted_hd [of p ss] contained first show ?thesis by blast
qed

theorem admission_first_when_earliest_witness:
  "event_type (hd (generatePatientTimeline scenario_patient [scenario_study])) = ev_admission
   \<and> duration (hd (generatePatientTimeline scenario_patient [scenario_study])) = 0"
proof -
  have "\<forall>t \<in> set (map snd (reached (checkpoints scenario_patient [scenario_study]))).
          admissionTime scenario_patient \<le> t"
    by (simp add: checkpoints_def study_checkpoints_def scenario_defs)
  with admission_first_when_earliest [of scenario_patient "[scenario_study]"]
  show ?thesis by simp
qed

text \<open>
  The claim without that condition fails: with a doctor assignment recorded five minutes
  before the admission, the returned timeline starts with the doctor_assigned event, of
  duration -5.
\<close>

theorem admission_not_always_first:
  "event_type (hd (generatePatientTimeline
      (scenario_patient\<lparr>assignedToDoctorAt := Some (t0 - minutes 5)\<rparr>) [scenario_study]))
     = doctor_assigned
   \<and> event_type (hd (generatePatientTimeline
      (scenario_patient\<lparr>assignedToDoctorAt := Some (t0 - minutes 5)\<rparr>) [scenario_study]))
     \<noteq> ev_admission
   \<and> duration (hd (generatePatientTimeline
      (scenario_patient\<lparr>assignedToDoctorAt := Some (t0 - minutes 5)\<rparr>) [scenario_study]))
     = - 5"
  by (simp add: generatePatientTimeline_def emit_defs scenario_defs)

section \<open>The scenario\<close>

text \<open>
  C5, as stated, fails on the order of the returned events: the all_completed event
  (10:40) is sorted before the study_reviewed event (10:45). It fails as well when the
  scenario is read without firstStudyRequestedAt, where no study_requested event exists.
\<close>

theorem scenario_order_counterexample:
  "map event_type (generatePatientTimeline scenario_patient [scenario_study]) \<noteq>
     [ev_admission, doctor_assigned, study_requested, study_in_progress, study_completed,
      study_reviewed, all_completed]
   \<and> map event_type (generatePatientTimeline
        (scenario_patient\<lparr>firstStudyRequestedAt := None\<rparr>) [scenario_study]) \<noteq>
     [ev_admission, doctor_assigned, study_requested, study_in_progress, study_completed,
      study_reviewed, all_completed]"
  by (simp add: generatePatientTimeline_def emit_defs scenario_defs)

text \<open>
  C5 (as amended). For the scenario patient the stage is in_progress; the timeline has
  seven events in non-decreasing order of timestamp: admission, doctor_assigned,
  study_requested, study_in_progress, study_completed (with the abnormal-result
  description), all_completed, study_reviewed, where study_completed and all_completed
  share 10:40; and the statistics at now = 11:00 are waitingForStudies = 20,
  studiesInProgress = 15, waitingForReview = 5, averageStudyTime = 20 (totalTime = 60).
\<close>

theorem scenario_results:
  "getPatientStage scenario_patient = in_progress
   \<and> map (\<lambda>e. (event_type e, timestamp e)) (generatePatientTimeline scenario_patient [scenario_study]) =
       [(ev_admission, t0), (doctor_assigned, t0 + minutes 10),
        (study_requested, t0 + minutes 20), (study_in_progress, t0 + minutes 25),
        (study_completed, t0 + minutes 40), (all_completed, t0 + minutes 40),
        (study_reviewed, t0 + minutes 45)]
   \<and> sorted (map timestamp (generatePatientTimeline scenario_patient [scenario_study]))
   \<and> description (generatePatientTimeline scenario_patient [scenario_study] ! 4) =
       warning_sign @ '' Resultado anormal detectado''
   \<and> calculatePatientTimeStats (t0 + minutes 60) scenario_patient [scenario_study] =
       \<lparr>totalTime = 60, waitingForStudies = 20, waitingForReview = 5,
        studiesInProgress = 15, averageStudyTime = 20\<rparr>"
proof -
  have stage: "getPatientStage scenario_patient = in_progress"
    by (simp add: getPatientStage_def scenario_defs)
  have order: "map (\<lambda>e. (event_type e, timestamp e))
      (generatePatientTimeline scenario_patient [scenario_study]) =
       [(ev_admission, t0), (doctor_assigned, t0 + minutes 10),
        (study_requested, t0 + minutes 20), (study_in_progress, t0 + minutes 25),
        (study_completed, t0 + minutes 40), (all_completed, t0 + minutes 40),
        (study_reviewed, t0 + minutes 45)]"
    by (simp add: generatePatientTimeline_def emit_defs scenario_defs)
  have chrono: "sorted (map timestamp (generatePatientTimeline scenario_patient [scenario_study]))"
    by (simp add: generatePatientTimeline_def emit_defs scenario_defs)
  have alert: "description (generatePatientTimeline scenario_patient [scenario_study] ! 4) =
       warning_sign @ '' Resultado anormal detectado''"
    by (simp add: generatePatientTimeline_def emit_defs scenario_defs)
  have stats: "calculatePatientTimeStats (t0 + minutes 60) scenario_patient [scenario_study] =
       \<lparr>totalTime = 60, waitingForStudies = 20, waitingForReview = 5,
        studiesInProgress = 15, averageStudyTime = 20\<rparr>"
    by (simp add: calculatePatientTimeStats_def scenario_defs)
  from stage order chrono alert stats show ?thesis by blast
qed

end
